theory Spec2Isabelle
  imports Main "HOL-Library.Sublist"
begin

section \<open>Go strings as byte lists\<close>

text \<open>
  A Go \<open>string\<close> is a sequence of bytes; \<open>len(s)\<close> and \<open>s[:n]\<close> count bytes.
  A \<^typ>\<open>string\<close> of HOL is a list of 8-bit characters, so the two agree.

  The functions of package \<open>strings\<close> that the program calls are written out here.
  \<open>strings.TrimSpace\<close> removes leading and trailing runes with the Unicode property
  White\_Space: the six one-byte ones, and the UTF-8 encodings listed in
  \<open>unicodeSpaces\<close> (U+0085, U+00A0, U+1680, U+2000 to U+200A, U+2028, U+2029, U+202F,
  U+205F, U+3000).
\<close>

definition asciiSpace :: "char \<Rightarrow> bool" where
  "asciiSpace c = (c \<in> set [CHR 0x09, CHR 0x0A, CHR 0x0B, CHR 0x0C, CHR 0x0D, CHR 0x20])"

definition unicodeSpaces :: "string list" where
  "unicodeSpaces =
     [ [CHR 0xC2, CHR 0x85], [CHR 0xC2, CHR 0xA0], [CHR 0xE1, CHR 0x9A, CHR 0x80],
      [CHR 0xE2, CHR 0x80, CHR 0x80], [CHR 0xE2, CHR 0x80, CHR 0x81],
      [CHR 0xE2, CHR 0x80, CHR 0x82], [CHR 0xE2, CHR 0x80, CHR 0x83],
      [CHR 0xE2, CHR 0x80, CHR 0x84], [CHR 0xE2, CHR 0x80, CHR 0x85],
      [CHR 0xE2, CHR 0x80, CHR 0x86], [CHR 0xE2, CHR 0x80, CHR 0x87],
      [CHR 0xE2, CHR 0x80, CHR 0x88], [CHR 0xE2, CHR 0x80, CHR 0x89],
      [CHR 0xE2, CHR 0x80, CHR 0x8A], [CHR 0xE2, CHR 0x80, CHR 0xA8],
      [CHR 0xE2, CHR 0x80, CHR 0xA9], [CHR 0xE2, CHR 0x80, CHR 0xAF],
      [CHR 0xE2, CHR 0x81, CHR 0x9F], [CHR 0xE3, CHR 0x80, CHR 0x80]]"

text \<open>
  \<open>spaceLen qs s\<close> is the number of bytes of the white-space rune that \<open>s\<close> starts
  with, 0 when it starts with none. \<open>qs\<close> are the multi-byte encodings to look for:
  \<open>unicodeSpaces\<close> from the left, their reversals when \<open>s\<close> is read from its end.
\<close>

definition spaceLen :: "string list \<Rightarrow> string \<Rightarrow> nat" where
  "spaceLen qs s =
     (case s of
        [] \<Rightarrow> 0
      | c # cs \<Rightarrow>
          if asciiSpace c then 1
          else (case find (\<lambda>q. prefix q s) qs of Some q \<Rightarrow> length q | None \<Rightarrow> 0))"

function trimLeftWith :: "string list \<Rightarrow> string \<Rightarrow> string" where
  "trimLeftWith qs s =
     (if spaceLen qs s = 0 then s else trimLeftWith qs (drop (spaceLen qs s) s))"
  by pat_completeness auto
termination
proof (relation "measure (\<lambda>(qs, s). length s)")
  show "wf (measure (\<lambda>(qs, s). length s))" by simp
next
  fix qs :: "string list" and s :: string
  assume "spaceLen qs s \<noteq> 0"
  then have "s \<noteq> []" by (auto simp: spaceLen_def)
  with \<open>spaceLen qs s \<noteq> 0\<close>
  show "((qs, drop (spaceLen qs s) s), (qs, s)) \<in> measure (\<lambda>(qs, s). length s)"
    by simp
qed

declare trimLeftWith.simps [simp del]

definition trimLeftSpace :: "string \<Rightarrow> string" where
  "trimLeftSpace s = trimLeftWith unicodeSpaces s"

definition trimRightSpace :: "string \<Rightarrow> string" where
  "trimRightSpace s = rev (trimLeftWith (map rev unicodeSpaces) (rev s))"

definition TrimSpace :: "string \<Rightarrow> string" where
  "TrimSpace s = trimRightSpace (trimLeftSpace s)"

text \<open>\<open>strings.ReplaceAll(s, "\n", " ")\<close>: every line feed becomes a space.\<close>

definition newlinesToSpaces :: "string \<Rightarrow> string" where
  "newlinesToSpaces s = map (\<lambda>c. if c = CHR 0x0A then CHR 0x20 else c) s"

text \<open>\<open>strings.Trim(s, cutset)\<close> for a cutset of ASCII bytes works byte by byte.\<close>

definition Trim :: "string \<Rightarrow> string \<Rightarrow> string" where
  "Trim s cutset =
     rev (dropWhile (\<lambda>c. c \<in> set cutset) (rev (dropWhile (\<lambda>c. c \<in> set cutset) s)))"

text \<open>\<open>if len(s) > 80 { s = s[:80] }\<close>\<close>

definition truncate80 :: "string \<Rightarrow> string" where
  "truncate80 s = (if length s > 80 then take 80 s else s)"

section \<open>Title normalisation (server)\<close>

definition normalizeTitle :: "string \<Rightarrow> string" where
  "normalizeTitle s = truncate80 (TrimSpace (newlinesToSpaces s))"


section \<open>More of the Go library\<close>

text \<open>\<open>strings.Contains\<close>, \<open>strings.Join\<close> and \<open>strconv.Itoa\<close>.\<close>

fun Contains :: "string \<Rightarrow> string \<Rightarrow> bool" where
  "Contains [] sub = (sub = [])"
| "Contains (c # cs) sub = (prefix sub (c # cs) \<or> Contains cs sub)"

fun Join :: "string list \<Rightarrow> string \<Rightarrow> string" where
  "Join [] sep = []"
| "Join [x] sep = x"
| "Join (x # y # ys) sep = x @ sep @ Join (y # ys) sep"

definition digit_char :: "nat \<Rightarrow> char" where
  "digit_char n = char_of (48 + n)"

function natToDec :: "nat \<Rightarrow> string" where
  "natToDec n = (if n < 10 then [digit_char n] else natToDec (n div 10) @ [digit_char (n mod 10)])"
  by pat_completeness auto
termination
  by (relation "measure id") auto

declare natToDec.simps [simp del]

definition Itoa :: "int \<Rightarrow> string" where
  "Itoa i = (if i < 0 then CHR ''-'' # natToDec (nat (- i)) else natToDec (nat i))"

section \<open>Data model\<close>

text \<open>
  Package \<open>model\<close> (conversations, messages, roles) is used by the sources but is not
  among them; the fields below are the ones the sources read and write. A \<open>time.Time\<close>
  is an instant, written as the number of nanoseconds since the zero time
  (January 1, year 1, 00:00:00 UTC), so \<open>t.IsZero()\<close> is \<open>t = 0\<close>, and
  \<open>After\<close> and \<open>Before\<close> are the strict orders on it. Errors of Go are values of \<open>error\<close>, each
  constructor named after the message the source gives it.
\<close>

type_synonym time = int

definition IsZero :: "time \<Rightarrow> bool" where
  "IsZero t = (t = 0)"

datatype role = RoleUser | RoleAssistant | RoleOther string

record message =
  msg_id :: string
  msg_role :: role
  msg_content :: string
  msg_created_at :: time
  msg_updated_at :: time

record conversation =
  conv_id :: string
  conv_title :: string
  conv_created_at :: time
  conv_updated_at :: time
  conv_messages :: "message list"

datatype error =
    ErrNoMessages                \<comment> \<open>"conversation has no messages"\<close>
  | ErrEmptyTitle                \<comment> \<open>"empty response from OpenAI for title generation"\<close>
  | ErrNoChoices                 \<comment> \<open>"no choices returned by OpenAI"\<close>
  | ErrUnknownTool string        \<comment> \<open>"unknown tool call: " + name\<close>
  | ErrTooManyToolCalls          \<comment> \<open>"too many tool calls, unable to generate reply"\<close>
  | ErrUpstream string           \<comment> \<open>an error returned by a collaborator, passed on as it is\<close>
  | ErrNilDereference            \<comment> \<open>run-time panic: field of a nil pointer\<close>
  | RequiredArgument string      \<comment> \<open>\<open>twirp.RequiredArgumentError\<close>\<close>
  | InternalErrorWith error      \<comment> \<open>\<open>twirp.InternalErrorWith\<close>\<close>

subsection \<open>The model provider's messages\<close>

record tool_call =
  call_id :: string
  call_name :: string
  call_arguments :: string

record completion_message =
  cm_content :: string
  cm_tool_calls :: "tool_call list"

datatype chat_msg =
    SystemMessage string
  | UserMessage string
  | AssistantMessage string
  | AssistantToolCalls completion_message   \<comment> \<open>\<open>message.ToParam()\<close>\<close>
  | ToolMessage string string               \<comment> \<open>content, call id\<close>

section \<open>The weather capability\<close>

text \<open>
  A request is the path and the query parameters in the order the source sets them;
  \<open>ws_do\<close> stands for encoding the URL and the HTTP round trip, with the three ways it
  can fail. Decoding the JSON body and formatting it (floating-point formatting) are the
  fields \<open>ws_decode_error\<close>, \<open>ws_format_current\<close> and \<open>ws_format_forecast\<close>.
  Each call returns its result and the requests it handed to \<open>ws_do\<close>.
\<close>

type_synonym weather_request = "string \<times> (string \<times> string) list"

datatype http_outcome =
    CreateFailed string
  | DoFailed string
  | ReadFailed string
  | Response nat string     \<comment> \<open>status code, body\<close>

record WeatherService =
  ws_apiKey :: string
  ws_do :: "weather_request \<Rightarrow> http_outcome"
  ws_decode_error :: "string \<Rightarrow> string option"
     \<comment> \<open>the error message of the body, when it decodes as a \<open>WeatherError\<close>\<close>
  ws_format_current :: "string \<Rightarrow> string + string"
     \<comment> \<open>\<open>json.Unmarshal\<close> into \<open>WeatherResponse\<close>, then \<open>formatCurrentWeather\<close>\<close>
  ws_format_forecast :: "string \<Rightarrow> string + string"
     \<comment> \<open>\<open>json.Unmarshal\<close> into \<open>WeatherResponse\<close>, then \<open>formatForecast\<close>\<close>

text \<open>The part that \<open>GetCurrentWeather\<close> and \<open>GetForecast\<close> have word for word in common.\<close>

definition doWeatherRequest ::
  "WeatherService \<Rightarrow> weather_request \<Rightarrow> (string \<Rightarrow> string + string) \<Rightarrow> string + string" where
  "doWeatherRequest w req render =
     (case ws_do w req of
        CreateFailed e \<Rightarrow> Inl (''failed to create request: '' @ e)
      | DoFailed e \<Rightarrow> Inl (''failed to make request: '' @ e)
      | ReadFailed e \<Rightarrow> Inl (''failed to read response: '' @ e)
      | Response status body \<Rightarrow>
          if status \<noteq> 200 then
            (case ws_decode_error w body of
               Some m \<Rightarrow>
                 if m \<noteq> [] then Inl (''weather API error: '' @ m)
                 else Inl (''weather API returned status '' @ Itoa (int status) @ '': '' @ body)
             | None \<Rightarrow> Inl (''weather API returned status '' @ Itoa (int status) @ '': '' @ body))
          else
            (case render body of
               Inl e \<Rightarrow> Inl (''failed to parse weather response: '' @ e)
             | Inr text \<Rightarrow> Inr text))"

definition currentRequest :: "WeatherService \<Rightarrow> string \<Rightarrow> weather_request" where
  "currentRequest w location =
     (''/current.json'', [(''key'', ws_apiKey w), (''q'', location), (''aqi'', ''no'')])"

definition GetCurrentWeather ::
  "WeatherService \<Rightarrow> string \<Rightarrow> (string + string) \<times> weather_request list" where
  "GetCurrentWeather w location =
     (doWeatherRequest w (currentRequest w location) (ws_format_current w),
      [currentRequest w location])"

definition forecastRequest :: "WeatherService \<Rightarrow> string \<Rightarrow> int \<Rightarrow> weather_request" where
  "forecastRequest w location days =
     (''/forecast.json'',
      [(''key'', ws_apiKey w), (''q'', location), (''days'', Itoa days), (''aqi'', ''no''),
       (''alerts'', ''no'')])"

definition GetForecast ::
  "WeatherService \<Rightarrow> string \<Rightarrow> int \<Rightarrow> (string + string) \<times> weather_request list" where
  "GetForecast w location days0 =
     (let days = (if days0 < 1 \<or> days0 > 14 then 3 else days0)
      in (doWeatherRequest w (forecastRequest w location days) (ws_format_forecast w),
          [forecastRequest w location days]))"


section \<open>The assistant\<close>

text \<open>
  What the assistant reaches outside the program is a field of the record:
  \<^item> \<open>complete k msgs tools\<close> is the provider's answer to the request with history
    \<open>msgs\<close> and the tools declared by name in \<open>tools\<close>, where \<open>k\<close> requests were made
    before it in the same run: an error, or the list of choices;
  \<^item> \<open>weatherService\<close> is \<open>None\<close> when \<open>WEATHER_API_KEY\<close> was not set;
  \<^item> \<open>titlePrompt\<close> and \<open>replyPrompt\<close> are the two fixed system prompts;
  \<^item> \<open>ToLower\<close> is \<open>strings.ToLower\<close>; \<open>unmarshalWeather\<close> and \<open>unmarshalHolidays\<close>
    are \<open>json.Unmarshal\<close> into the two payload structs (an absent field keeps its zero
    value, an absent \<open>forecast_days\<close> is the nil pointer);
  \<^item> \<open>nowRFC3339 k\<close> is \<open>time.Now().Format(time.RFC3339)\<close> read in round \<open>k\<close>;
  \<^item> \<open>holidayLinkEnv\<close> is the environment variable \<open>HOLIDAY_CALENDAR_LINK\<close>;
  \<^item> \<open>LoadCalendar\<close> (a function of this package whose file is not among the sources)
    loads the events of a feed; an event has the result of \<open>GetAllDayStartAt\<close>
    (\<open>None\<close> for an error) and its SUMMARY property (\<open>None\<close> when \<open>GetProperty\<close>
    returns nil);
  \<^item> \<open>formatDateOnly\<close> is \<open>Format(time.DateOnly)\<close>.
\<close>

record weather_payload =
  wp_Location :: string
  wp_ForecastDays :: "int option"

record holidays_payload =
  hp_BeforeDate :: time
  hp_AfterDate :: time
  hp_MaxCount :: int

record event =
  ev_start :: "time option"
  ev_summary :: "string option"

record Assistant =
  complete :: "nat \<Rightarrow> chat_msg list \<Rightarrow> string list \<Rightarrow> string + completion_message list"
  weatherService :: "WeatherService option"
  titlePrompt :: string
  replyPrompt :: string
  ToLower :: "string \<Rightarrow> string"
  unmarshalWeather :: "string \<Rightarrow> string + weather_payload"
  unmarshalHolidays :: "string \<Rightarrow> string + holidays_payload"
  nowRFC3339 :: "nat \<Rightarrow> string"
  holidayLinkEnv :: string
  LoadCalendar :: "string \<Rightarrow> string + event list"
  formatDateOnly :: "time \<Rightarrow> string"

definition weatherKeywords :: "string list" where
  "weatherKeywords =
     [''weather'', ''temperature'', ''forecast'', ''climate'', ''hot'', ''cold'', ''rain'',
      ''snow'', ''sunny'', ''cloudy'', ''wind'', ''humidity'',
      [CHR 0xC2, CHR 0xB0, CHR ''c''], [CHR 0xC2, CHR 0xB0, CHR ''f''],
      ''celsius'', ''fahrenheit'']"

definition isWeatherQuery :: "Assistant \<Rightarrow> string \<Rightarrow> bool" where
  "isWeatherQuery a content = list_ex (Contains (ToLower a content)) weatherKeywords"

subsection \<open>Title\<close>

definition titleCutset :: string where
  "titleCutset = [CHR 0x20, CHR 0x09, CHR 0x0D, CHR 0x0A, CHR ''-'', CHR 0x22, CHR 0x27]"

fun titleMsg :: "message \<Rightarrow> chat_msg list" where
  "titleMsg m =
     (case msg_role m of
        RoleUser \<Rightarrow> [UserMessage (msg_content m)]
      | RoleAssistant \<Rightarrow> [AssistantMessage (msg_content m)]
      | RoleOther r \<Rightarrow> [])"

text \<open>The result, and the number of requests made to the provider.\<close>

definition Title :: "Assistant \<Rightarrow> conversation \<Rightarrow> (error + string) \<times> nat" where
  "Title a conv =
     (if length (conv_messages conv) = 0 then (Inr ''An empty conversation'', 0)
      else
        (case complete a 0 (SystemMessage (titlePrompt a) # concat (map titleMsg (conv_messages conv))) [] of
           Inl e \<Rightarrow> (Inl (ErrUpstream e), 1)
         | Inr choices \<Rightarrow>
             (case choices of
                [] \<Rightarrow> (Inl ErrEmptyTitle, 1)
              | ch # rest \<Rightarrow>
                  if TrimSpace (cm_content ch) = [] then (Inl ErrEmptyTitle, 1)
                  else (Inr (truncate80 (Trim (newlinesToSpaces (cm_content ch)) titleCutset)), 1))))"

subsection \<open>Tool dispatch\<close>

definition toolNames :: "string list" where
  "toolNames = [''get_weather'', ''get_today_date'', ''get_holidays'']"

definition forceWeatherPrefix :: string where
  "forceWeatherPrefix =
     ''IMPORTANT: You MUST use the get_weather function to answer this question. '' @
     ''Do NOT generate weather information from your training data. '' @
     ''Extract the location and forecast_days (if any) from the user'' @ [CHR 0x27] @
     ''s text. Question: ''"

fun replyMsg :: "Assistant \<Rightarrow> message \<Rightarrow> chat_msg list" where
  "replyMsg a m =
     (case msg_role m of
        RoleUser \<Rightarrow>
          [UserMessage (if isWeatherQuery a (msg_content m)
                        then forceWeatherPrefix @ msg_content m else msg_content m)]
      | RoleAssistant \<Rightarrow> [AssistantMessage (msg_content m)]
      | RoleOther r \<Rightarrow> [])"

text \<open>
  The loop over the events of the feed; \<open>holidays\<close> is the slice built so far.
  \<open>None\<close> is the panic of reading \<open>.Value\<close> of a nil property.
\<close>

fun collectHolidays ::
  "(time \<Rightarrow> string) \<Rightarrow> holidays_payload \<Rightarrow> event list \<Rightarrow> string list \<Rightarrow> string list option" where
  "collectHolidays fmt p [] holidays = Some holidays"
| "collectHolidays fmt p (ev # evs) holidays =
     (case ev_start ev of
        None \<Rightarrow> collectHolidays fmt p evs holidays
      | Some date \<Rightarrow>
          if hp_MaxCount p > 0 \<and> int (length holidays) \<ge> hp_MaxCount p then Some holidays
          else if \<not> IsZero (hp_BeforeDate p) \<and> date > hp_BeforeDate p
            then collectHolidays fmt p evs holidays
          else if \<not> IsZero (hp_AfterDate p) \<and> date < hp_AfterDate p
            then collectHolidays fmt p evs holidays
          else (case ev_summary ev of
                  None \<Rightarrow> None
                | Some name \<Rightarrow>
                    collectHolidays fmt p evs (holidays @ [fmt date @ '': '' @ name])))"

definition defaultHolidayLink :: string where
  "defaultHolidayLink = ''https://www.officeholidays.com/ics/spain/catalonia''"

text \<open>
  \<open>if payload.ForecastDays != nil && *payload.ForecastDays > 0\<close>: the forecast,
  otherwise the current conditions.
\<close>

definition fetchWeather ::
  "WeatherService \<Rightarrow> weather_payload \<Rightarrow> (string + string) \<times> weather_request list" where
  "fetchWeather w payload =
     (case wp_ForecastDays payload of
        Some d \<Rightarrow>
          if d > 0 then GetForecast w (wp_Location payload) d
          else GetCurrentWeather w (wp_Location payload)
      | None \<Rightarrow> GetCurrentWeather w (wp_Location payload))"

definition weatherTool ::
  "Assistant \<Rightarrow> tool_call \<Rightarrow> (error + chat_msg) \<times> weather_request list" where
  "weatherTool a c =
     (case unmarshalWeather a (call_arguments c) of
        Inl e \<Rightarrow>
          (Inr (ToolMessage (''failed to parse weather request arguments: '' @ e) (call_id c)), [])
      | Inr payload \<Rightarrow>
          (case weatherService a of
             None \<Rightarrow>
               (Inr (ToolMessage
                  ''Weather service is not configured. Please set WEATHER_API_KEY environment variable.''
                  (call_id c)), [])
           | Some w \<Rightarrow>
               (case fetchWeather w payload of
                  (Inl e, reqs) \<Rightarrow>
                    (Inr (ToolMessage (''Failed to get weather information: '' @ e) (call_id c)), reqs)
                | (Inr weatherInfo, reqs) \<Rightarrow>
                    (Inr (ToolMessage weatherInfo (call_id c)), reqs))))"

definition holidaysTool :: "Assistant \<Rightarrow> tool_call \<Rightarrow> error + chat_msg" where
  "holidaysTool a c =
     (let link = (if holidayLinkEnv a \<noteq> [] then holidayLinkEnv a else defaultHolidayLink)
      in case LoadCalendar a link of
           Inl e \<Rightarrow> Inr (ToolMessage ''failed to load holiday events'' (call_id c))
         | Inr events \<Rightarrow>
             (case unmarshalHolidays a (call_arguments c) of
                Inl e \<Rightarrow>
                  Inr (ToolMessage (''failed to parse tool call arguments: '' @ e) (call_id c))
              | Inr payload \<Rightarrow>
                  (case collectHolidays (formatDateOnly a) payload events [] of
                     None \<Rightarrow> Inl ErrNilDereference
                   | Some holidays \<Rightarrow>
                       Inr (ToolMessage (Join holidays [CHR 0x0A]) (call_id c)))))"

text \<open>
  The \<open>switch\<close> on the name of one tool call, in round \<open>i\<close>: the message it appends to the
  history (or the error that ends \<open>Reply\<close>), and the weather requests it made.
\<close>

definition dispatchCall ::
  "Assistant \<Rightarrow> nat \<Rightarrow> tool_call \<Rightarrow> (error + chat_msg) \<times> weather_request list" where
  "dispatchCall a i c =
     (if call_name c = ''get_weather'' then weatherTool a c
      else if call_name c = ''get_today_date'' then (Inr (ToolMessage (nowRFC3339 a i) (call_id c)), [])
      else if call_name c = ''get_holidays'' then (holidaysTool a c, [])
      else (Inl (ErrUnknownTool (call_name c)), []))"

text \<open>\<open>for _, call := range message.ToolCalls\<close>\<close>

fun dispatchCalls ::
  "Assistant \<Rightarrow> nat \<Rightarrow> chat_msg list \<Rightarrow> tool_call list \<Rightarrow>
     (error + chat_msg list) \<times> weather_request list" where
  "dispatchCalls a i msgs [] = (Inr msgs, [])"
| "dispatchCalls a i msgs (c # cs) =
     (case dispatchCall a i c of
        (Inl e, reqs) \<Rightarrow> (Inl e, reqs)
      | (Inr m, reqs) \<Rightarrow>
          (case dispatchCalls a i (msgs @ [m]) cs of (r, reqs') \<Rightarrow> (r, reqs @ reqs')))"

subsection \<open>Reply\<close>

text \<open>
  The result of \<open>Reply\<close> comes with the number of requests made to the provider and the
  weather requests made, in order. \<open>anotherRound\<close> adds the round that was just played
  to what the rest of the loop returns.
\<close>

type_synonym reply_outcome = "(error + string) \<times> nat \<times> weather_request list"

definition anotherRound :: "weather_request list \<Rightarrow> reply_outcome \<Rightarrow> reply_outcome" where
  "anotherRound reqs out = (case out of (r, n, reqs') \<Rightarrow> (r, Suc n, reqs @ reqs'))"

function replyLoop :: "Assistant \<Rightarrow> nat \<Rightarrow> chat_msg list \<Rightarrow> reply_outcome" where
  "replyLoop a i msgs =
     (if i < 15 then
        (case complete a i msgs toolNames of
           Inl e \<Rightarrow> (Inl (ErrUpstream e), 1, [])
         | Inr choices \<Rightarrow>
             (case choices of
                [] \<Rightarrow> (Inl ErrNoChoices, 1, [])
              | message # rest \<Rightarrow>
                  if length (cm_tool_calls message) > 0 then
                    (case dispatchCalls a i (msgs @ [AssistantToolCalls message])
                            (cm_tool_calls message) of
                       (Inl e, reqs) \<Rightarrow> (Inl e, 1, reqs)
                     | (Inr msgs', reqs) \<Rightarrow> anotherRound reqs (replyLoop a (Suc i) msgs'))
                  else (Inr (cm_content message), 1, [])))
      else (Inl ErrTooManyToolCalls, 0, []))"
  by pat_completeness auto
termination
  by (relation "measure (\<lambda>(a, i, msgs). 15 - i)") auto

declare replyLoop.simps [simp del]

definition Reply :: "Assistant \<Rightarrow> conversation \<Rightarrow> reply_outcome" where
  "Reply a conv =
     (if length (conv_messages conv) = 0 then (Inl ErrNoMessages, 0, [])
      else replyLoop a 0 (SystemMessage (replyPrompt a) # concat (map (replyMsg a) (conv_messages conv))))"


section \<open>The chat server\<close>

subsection \<open>Collaborators\<close>

text \<open>
  The title cache is an LRU cache of the library \<open>golang-lru\<close>: the entries, most
  recently used first, and the capacity. \<open>Get\<close> moves a hit to the front; \<open>Add\<close> puts
  the entry at the front and, past the capacity, drops the oldest one.
\<close>

record lru =
  lru_size :: nat
  lru_items :: "(string \<times> string) list"

definition lruGet :: "lru \<Rightarrow> string \<Rightarrow> string option \<times> lru" where
  "lruGet c k =
     (case map_of (lru_items c) k of
        None \<Rightarrow> (None, c)
      | Some v \<Rightarrow> (Some v, c\<lparr>lru_items := (k, v) # filter (\<lambda>kv. fst kv \<noteq> k) (lru_items c)\<rparr>))"

definition lruAdd :: "lru \<Rightarrow> string \<Rightarrow> string \<Rightarrow> lru" where
  "lruAdd c k v =
     (let items = (k, v) # filter (\<lambda>kv. fst kv \<noteq> k) (lru_items c)
      in c\<lparr>lru_items := (if length items > lru_size c then butlast items else items)\<rparr>)"

text \<open>
  Modelled from the spec: the persistence store (\<open>model.Repository\<close>, whose file is not
  among the sources), "create/update/list/describe operations over a durable record":
  \<open>Create\<close> and \<open>Update\<close> write the conversation under its identifier, \<open>Describe\<close>
  reads it. Each operation can fail; the three \<open>_error\<close> fields say which do.
\<close>

record Repository =
  stored :: "string \<rightharpoonup> conversation"
  create_error :: "string option"
  update_error :: "string option"
  describe_error :: "string option"

definition CreateConversation :: "Repository \<Rightarrow> conversation \<Rightarrow> (error + unit) \<times> Repository" where
  "CreateConversation r c =
     (case create_error r of
        Some e \<Rightarrow> (Inl (ErrUpstream e), r)
      | None \<Rightarrow> (Inr (), r\<lparr>stored := (stored r)(conv_id c \<mapsto> c)\<rparr>))"

definition UpdateConversation :: "Repository \<Rightarrow> conversation \<Rightarrow> (error + unit) \<times> Repository" where
  "UpdateConversation r c =
     (case update_error r of
        Some e \<Rightarrow> (Inl (ErrUpstream e), r)
      | None \<Rightarrow> (Inr (), r\<lparr>stored := (stored r)(conv_id c \<mapsto> c)\<rparr>))"

definition DescribeConversation :: "Repository \<Rightarrow> string \<Rightarrow> error + conversation" where
  "DescribeConversation r cid =
     (case describe_error r of
        Some e \<Rightarrow> Inl (ErrUpstream e)
      | None \<Rightarrow>
          (case stored r cid of
             None \<Rightarrow> Inl (ErrUpstream ''conversation not found'')
           | Some c \<Rightarrow> Inr c))"

text \<open>
  What a request does beyond its result, in the order it happens: the writes and reads
  of the store, the calls of the assistant (the title call with its time budget in
  nanoseconds), and the log lines.
\<close>

datatype effect =
    RepoCreate conversation
  | RepoCreateFailed conversation
  | RepoDescribe string
  | RepoUpdate conversation
  | RepoUpdateFailed conversation
  | CallTitle int conversation
  | CallReply conversation
  | LogWarn string
  | LogError string

text \<open>
  The server: its two pieces of state (\<open>repo\<close>, \<open>titleLRU\<close>) and what it reaches outside.
  \<open>assistTitle\<close> and \<open>assistReply\<close> are the two methods of the interface \<open>Assistant\<close>
  (the title call gets the budget of its context);
  \<open>newObjectID k\<close> and \<open>timeNow k\<close> are the \<open>k\<close>-th identifier and the \<open>k\<close>-th clock
  reading of the request; \<open>untilDeadline\<close> is the duration \<open>time.Until(dl)\<close> in
  nanoseconds, a 64-bit value; \<open>titleFirst\<close> says which of the two concurrent tasks
  makes its call first; \<open>srvToLower\<close> is \<open>strings.ToLower\<close> and \<open>sha256Hex\<close> is
  \<open>sha256.Sum256\<close> followed by \<open>hex.EncodeToString\<close>. Duplicate in-flight requests
  (\<open>singleflight\<close>) do not arise: one request is handled at a time.
\<close>

record Server =
  repo :: Repository
  titleLRU :: lru
  assistTitle :: "int \<Rightarrow> conversation \<Rightarrow> error + string"
  assistReply :: "conversation \<Rightarrow> error + string"
  newObjectID :: "nat \<Rightarrow> string"
  timeNow :: "nat \<Rightarrow> time"
  untilDeadline :: int
  titleFirst :: bool
  srvToLower :: "string \<Rightarrow> string"
  sha256Hex :: "string \<Rightarrow> string"

subsection \<open>Cache key\<close>

text \<open>\<open>strings.Fields\<close>: the maximal runs of bytes between white-space runes.\<close>

function fieldsFrom :: "string \<Rightarrow> string \<Rightarrow> string list" where
  "fieldsFrom cur s =
     (if s = [] then (if cur = [] then [] else [cur])
      else if spaceLen unicodeSpaces s = 0 then fieldsFrom (cur @ [hd s]) (tl s)
      else (if cur = [] then [] else [cur]) @ fieldsFrom [] (drop (spaceLen unicodeSpaces s) s))"
  by pat_completeness auto
termination
  by (relation "measure (\<lambda>(cur, s). length s)") auto

declare fieldsFrom.simps [simp del]

definition Fields :: "string \<Rightarrow> string list" where
  "Fields s = fieldsFrom [] s"

definition normalizeForKey :: "Server \<Rightarrow> string \<Rightarrow> string" where
  "normalizeForKey srv s = Join (Fields (srvToLower srv (TrimSpace s))) '' ''"

definition makeTitleKey :: "Server \<Rightarrow> conversation \<Rightarrow> string \<Rightarrow> string \<Rightarrow> string" where
  "makeTitleKey srv conv model promptVersion =
     (let first = (case conv_messages conv of [] \<Rightarrow> [] | m # ms \<Rightarrow> normalizeForKey srv (msg_content m))
      in sha256Hex srv (Join [''title'', model, promptVersion, first] ''|''))"

subsection \<open>Title generation with the cache\<close>

definition generateTitle ::
  "Server \<Rightarrow> int \<Rightarrow> conversation \<Rightarrow> (error + string) \<times> Server \<times> effect list" where
  "generateTitle srv budget conv =
     (let key = makeTitleKey srv conv ''o1'' ''v1''
      in case lruGet (titleLRU srv) key of
           (Some v, c) \<Rightarrow> (Inr v, srv\<lparr>titleLRU := c\<rparr>, [])
         | (None, c) \<Rightarrow>
             (case assistTitle srv budget conv of
                Inl e \<Rightarrow> (Inl e, srv, [CallTitle budget conv])
              | Inr t \<Rightarrow>
                  if normalizeTitle t \<noteq> [] then
                    (Inr (normalizeTitle t),
                     srv\<lparr>titleLRU := lruAdd (titleLRU srv) key (normalizeTitle t)\<rparr>,
                     [CallTitle budget conv])
                  else (Inr t, srv, [CallTitle budget conv])))"

subsection \<open>The title budget\<close>

text \<open>
  Durations are 64-bit counts of nanoseconds; \<open>wrap64\<close> is the value a 64-bit
  subtraction leaves.
\<close>

definition Millisecond :: int where "Millisecond = 1000000"
definition Second :: int where "Second = 1000 * Millisecond"

definition wrap64 :: "int \<Rightarrow> int" where
  "wrap64 x = (x + 2 ^ 63) mod 2 ^ 64 - 2 ^ 63"

definition titleBudget :: "int \<Rightarrow> int" where
  "titleBudget until =
     (let rem = wrap64 (until - 500 * Millisecond)
      in if rem < 15 * Second then (if rem \<le> 0 then 500 * Millisecond else rem)
         else 15 * Second)"

subsection \<open>StartConversation\<close>

record StartConversationResponse =
  resp_ConversationId :: string
  resp_Title :: string
  resp_Reply :: string

text \<open>The two concurrent tasks: what the title task leaves in \<open>title\<close>, and its log line.\<close>

definition titleTask ::
  "Server \<Rightarrow> conversation \<Rightarrow> string \<times> Server \<times> effect list" where
  "titleTask srv conversation =
     (case generateTitle srv (titleBudget (untilDeadline srv)) conversation of
        (Inl e, srv', effs) \<Rightarrow>
          ([], srv', effs @ [LogWarn ''Title generation failed or empty; keeping default''])
      | (Inr t, srv', effs) \<Rightarrow>
          if TrimSpace t = []
          then ([], srv', effs @ [LogWarn ''Title generation failed or empty; keeping default''])
          else (TrimSpace t, srv', effs))"

text \<open>The conversation that \<open>StartConversation\<close> builds around the first message.\<close>

definition newConversation :: "Server \<Rightarrow> string \<Rightarrow> conversation" where
  "newConversation srv reqMessage =
     (let now = timeNow srv 0
      in \<lparr>conv_id = newObjectID srv 0, conv_title = ''Untitled conversation'',
          conv_created_at = now, conv_updated_at = now,
          conv_messages =
            [\<lparr>msg_id = newObjectID srv 1, msg_role = RoleUser, msg_content = reqMessage,
              msg_created_at = now, msg_updated_at = now\<rparr>]\<rparr>)"

definition StartConversation ::
  "Server \<Rightarrow> string \<Rightarrow> (error + StartConversationResponse) \<times> Server \<times> effect list" where
  "StartConversation srv reqMessage =
     (if TrimSpace reqMessage = [] then (Inl (RequiredArgument ''message''), srv, [])
      else
        let conversation = newConversation srv reqMessage
        in case CreateConversation (repo srv) conversation of
             (Inl e, r) \<Rightarrow> (Inl e, srv, [RepoCreateFailed conversation])
           | (Inr u, r1) \<Rightarrow>
               (case titleTask (srv\<lparr>repo := r1\<rparr>) conversation of
                  (title, srv2, titleEffs) \<Rightarrow>
                    let replyEffs = [CallReply conversation];
                        tasks = (if titleFirst srv then titleEffs @ replyEffs
                                 else replyEffs @ titleEffs)
                    in case assistReply srv conversation of
                         Inl e \<Rightarrow>
                           (Inl (InternalErrorWith e), srv2, RepoCreate conversation # tasks)
                       | Inr reply \<Rightarrow>
                           let now2 = timeNow srv 1;
                               updated = conversation
                                 \<lparr>conv_title := (if title \<noteq> [] then title else conv_title conversation),
                                  conv_updated_at := now2,
                                  conv_messages := conv_messages conversation @
                                    [\<lparr>msg_id = newObjectID srv 2, msg_role = RoleAssistant,
                                      msg_content = reply, msg_created_at = now2,
                                      msg_updated_at = now2\<rparr>]\<rparr>;
                               response =
                                 \<lparr>resp_ConversationId = conv_id updated,
                                  resp_Title = conv_title updated, resp_Reply = reply\<rparr>
                           in case UpdateConversation (repo srv2) updated of
                                (Inl e, r) \<Rightarrow>
                                  (Inr response, srv2,
                                   RepoCreate conversation # tasks @
                                     [RepoUpdateFailed updated, LogError ''Failed to update conversation''])
                              | (Inr u, r2) \<Rightarrow>
                                  (Inr response, srv2\<lparr>repo := r2\<rparr>,
                                   RepoCreate conversation # tasks @ [RepoUpdate updated])))"

subsection \<open>ContinueConversation\<close>

definition ContinueConversation ::
  "Server \<Rightarrow> string \<Rightarrow> string \<Rightarrow> (error + string) \<times> Server \<times> effect list" where
  "ContinueConversation srv conversationId reqMessage =
     (if conversationId = [] then (Inl (RequiredArgument ''conversation_id''), srv, [])
      else if TrimSpace reqMessage = [] then (Inl (RequiredArgument ''message''), srv, [])
      else
        case DescribeConversation (repo srv) conversationId of
          Inl e \<Rightarrow> (Inl e, srv, [RepoDescribe conversationId])
        | Inr conversation \<Rightarrow>
            let withUser = conversation
                  \<lparr>conv_updated_at := timeNow srv 0,
                   conv_messages := conv_messages conversation @
                     [\<lparr>msg_id = newObjectID srv 0, msg_role = RoleUser, msg_content = reqMessage,
                       msg_created_at = timeNow srv 1, msg_updated_at = timeNow srv 2\<rparr>]\<rparr>
            in case assistReply srv withUser of
                 Inl e \<Rightarrow>
                   (Inl (InternalErrorWith e), srv, [RepoDescribe conversationId, CallReply withUser])
               | Inr reply \<Rightarrow>
                   let withReply = withUser
                         \<lparr>conv_messages := conv_messages withUser @
                            [\<lparr>msg_id = newObjectID srv 1, msg_role = RoleAssistant,
                              msg_content = reply, msg_created_at = timeNow srv 3,
                              msg_updated_at = timeNow srv 4\<rparr>]\<rparr>
                   in case UpdateConversation (repo srv) withReply of
                        (Inl e, r) \<Rightarrow>
                          (Inl (InternalErrorWith e), srv,
                           [RepoDescribe conversationId, CallReply withUser, RepoUpdateFailed withReply])
                      | (Inr u, r2) \<Rightarrow>
                          (Inr reply, srv\<lparr>repo := r2\<rparr>,
                           [RepoDescribe conversationId, CallReply withUser, RepoUpdate withReply]))"


section \<open>Notions used to state the properties\<close>

subsection \<open>White space at the ends of a string\<close>



subsection \<open>Rounds of the tool loop\<close>

text \<open>
  A tool call is \<open>dispatched\<close> when the \<open>switch\<close> turns it into a tool-result message.
  In a \<open>toolCallRound\<close> the provider answers with tool calls, all of them dispatched,
  and so with no final answer. \<open>isToolResultFor c m\<close>: \<open>m\<close> is a tool-result message
  that answers the call \<open>c\<close>.
\<close>

definition dispatched :: "Assistant \<Rightarrow> nat \<Rightarrow> tool_call \<Rightarrow> bool" where
  "dispatched a k c = (case fst (dispatchCall a k c) of Inl e \<Rightarrow> False | Inr m \<Rightarrow> True)"

definition toolCallRound :: "Assistant \<Rightarrow> nat \<Rightarrow> chat_msg list \<Rightarrow> bool" where
  "toolCallRound a k msgs =
     (case complete a k msgs toolNames of
        Inl e \<Rightarrow> False
      | Inr choices \<Rightarrow>
          (case choices of
             [] \<Rightarrow> False
           | m # rest \<Rightarrow> cm_tool_calls m \<noteq> [] \<and> list_all (dispatched a k) (cm_tool_calls m)))"

definition isToolResultFor :: "tool_call \<Rightarrow> chat_msg \<Rightarrow> bool" where
  "isToolResultFor c m = (case m of ToolMessage content cid \<Rightarrow> cid = call_id c | _ \<Rightarrow> False)"

subsection \<open>Weather and holidays as the specification words them\<close>

text \<open>
  The specification's wording of the forecast range, "clamps the requested range to its
  supported bound": the nearest day count between 1 and 14.
\<close>

definition specClampDays :: "int \<Rightarrow> int" where
  "specClampDays d = max 1 (min 14 d)"

text \<open>
  The specification's wording of the holiday filter: an event is selected when it has
  a date that is not after \<open>before_date\<close> (when given) and not before \<open>after_date\<close>
  (when given), a date being given when the decoded field is not the zero time; the
  selection is cut at \<open>max_count\<close> when that is positive; a line is "date: name".
\<close>

definition dateSelected :: "holidays_payload \<Rightarrow> event \<Rightarrow> bool" where
  "dateSelected p ev =
     (case ev_start ev of
        None \<Rightarrow> False
      | Some date \<Rightarrow>
          (IsZero (hp_BeforeDate p) \<or> \<not> date > hp_BeforeDate p) \<and>
          (IsZero (hp_AfterDate p) \<or> \<not> date < hp_AfterDate p))"

definition truncateAt :: "int \<Rightarrow> 'a list \<Rightarrow> 'a list" where
  "truncateAt n xs = (if n > 0 then take (nat n) xs else xs)"

definition holidayLine :: "(time \<Rightarrow> string) \<Rightarrow> event \<Rightarrow> string" where
  "holidayLine fmt ev =
     (case ev_start ev of
        None \<Rightarrow> []
      | Some date \<Rightarrow> (case ev_summary ev of None \<Rightarrow> [] | Some name \<Rightarrow> fmt date @ '': '' @ name))"

subsection \<open>Order of persistence and generation\<close>

text \<open>
  \<open>persistedBeforeGeneration msg effs\<close>: reading the effects of a request in order, a
  successful write of a conversation that holds the user message \<open>msg\<close> comes before
  the first call of the assistant (or the assistant is never called).
\<close>

definition isGeneration :: "effect \<Rightarrow> bool" where
  "isGeneration e = (case e of CallTitle b c \<Rightarrow> True | CallReply c \<Rightarrow> True | _ \<Rightarrow> False)"

definition holdsUserMessage :: "string \<Rightarrow> conversation \<Rightarrow> bool" where
  "holdsUserMessage msg c =
     list_ex (\<lambda>m. msg_role m = RoleUser \<and> msg_content m = msg) (conv_messages c)"

definition persistsUserMessage :: "string \<Rightarrow> effect \<Rightarrow> bool" where
  "persistsUserMessage msg e =
     (case e of
        RepoCreate c \<Rightarrow> holdsUserMessage msg c
      | RepoUpdate c \<Rightarrow> holdsUserMessage msg c
      | _ \<Rightarrow> False)"

fun persistedBeforeGeneration :: "string \<Rightarrow> effect list \<Rightarrow> bool" where
  "persistedBeforeGeneration msg [] = True"
| "persistedBeforeGeneration msg (e # es) =
     (if persistsUserMessage msg e then True
      else if isGeneration e then False
      else persistedBeforeGeneration msg es)"

text \<open>
  \<open>writeRejected reply e\<close>: the effect \<open>e\<close> is a rejected update of a conversation that
  holds the assistant's message \<open>reply\<close>.
\<close>

definition writeRejected :: "string \<Rightarrow> effect \<Rightarrow> bool" where
  "writeRejected reply e =
     (case e of
        RepoUpdateFailed c \<Rightarrow>
          list_ex (\<lambda>m. msg_role m = RoleAssistant \<and> msg_content m = reply) (conv_messages c)
      | _ \<Rightarrow> False)"

section \<open>Concrete collaborators\<close>

text \<open>
  A weather service whose current-conditions endpoint is down, an assistant whose
  provider always asks for the date, and a server holding one stored conversation.
  Instants are small numbers here, and a date prints as its number.
\<close>

definition exampleService :: WeatherService where
  "exampleService =
     \<lparr>ws_apiKey = ''secret'',
      ws_do = (\<lambda>req. if fst req = ''/current.json'' then DoFailed ''connection refused''
                      else Response 200 ''{}''),
      ws_decode_error = (\<lambda>body. None),
      ws_format_current = (\<lambda>body. Inr ''Sunny''),
      ws_format_forecast = (\<lambda>body. Inr ''Rain, then sun'')\<rparr>"

definition exampleAssistant :: Assistant where
  "exampleAssistant =
     \<lparr>complete = (\<lambda>k msgs tools.
         Inr [\<lparr>cm_content = [], cm_tool_calls =
                 [\<lparr>call_id = ''call_1'', call_name = ''get_today_date'', call_arguments = []\<rparr>]\<rparr>]),
      weatherService = Some exampleService,
      titlePrompt = ''You are a title generator.'',
      replyPrompt = ''You are a helpful AI assistant with access to specialized tools.'',
      ToLower = (\<lambda>s. s),
      unmarshalWeather = (\<lambda>args.
         if args = ''not json'' then Inl ''invalid character''
         else if args = ''Paris now'' then Inr \<lparr>wp_Location = ''Paris'', wp_ForecastDays = None\<rparr>
         else Inr \<lparr>wp_Location = ''Paris'', wp_ForecastDays = Some 20\<rparr>),
      unmarshalHolidays = (\<lambda>args.
         if args = ''not json'' then Inl ''invalid character''
         else Inr \<lparr>hp_BeforeDate = 0, hp_AfterDate = 32, hp_MaxCount = 1\<rparr>),
      nowRFC3339 = (\<lambda>k. ''2024-03-01T10:00:00Z''),
      holidayLinkEnv = [],
      LoadCalendar = (\<lambda>link.
         Inr [\<lparr>ev_start = Some 1, ev_summary = Some ''New Year''\<rparr>,
              \<lparr>ev_start = Some 167, ev_summary = Some ''Midsummer''\<rparr>,
              \<lparr>ev_start = Some 360, ev_summary = Some ''Christmas''\<rparr>]),
      formatDateOnly = (\<lambda>t. ''day '' @ Itoa t)\<rparr>"

definition exampleConversation :: conversation where
  "exampleConversation =
     \<lparr>conv_id = ''c1'', conv_title = ''Weather in Barcelona'', conv_created_at = 5,
      conv_updated_at = 6,
      conv_messages =
        [\<lparr>msg_id = ''m1'', msg_role = RoleUser, msg_content = ''What is the weather like?'',
          msg_created_at = 5, msg_updated_at = 5\<rparr>,
         \<lparr>msg_id = ''m2'', msg_role = RoleAssistant, msg_content = ''Sunny.'',
          msg_created_at = 6, msg_updated_at = 6\<rparr>]\<rparr>"

definition exampleServer :: Server where
  "exampleServer =
     \<lparr>repo = \<lparr>stored = [''c1'' \<mapsto> exampleConversation], create_error = None,
              update_error = None, describe_error = None\<rparr>,
      titleLRU = \<lparr>lru_size = 10000, lru_items = []\<rparr>,
      assistTitle = (\<lambda>budget conv. Inr ''Weather in Barcelona''),
      assistReply = (\<lambda>conv. Inr ''It is sunny!''),
      newObjectID = (\<lambda>k. ''id'' @ Itoa (int k)),
      timeNow = (\<lambda>k. 100 + int k),
      untilDeadline = 30 * Second,
      titleFirst = True,
      srvToLower = (\<lambda>s. s),
      sha256Hex = (\<lambda>s. s)\<rparr>"



definition weatherCall :: "string \<Rightarrow> tool_call" where
  "weatherCall args = \<lparr>call_id = ''call_3'', call_name = ''get_weather'', call_arguments = args\<rparr>"

definition holidaysCall :: "string \<Rightarrow> tool_call" where
  "holidaysCall args = \<lparr>call_id = ''call_4'', call_name = ''get_holidays'', call_arguments = args\<rparr>"

text \<open>A server whose assistant cannot reply, and one whose store rejects updates.\<close>

definition unavailableServer :: Server where
  "unavailableServer = exampleServer\<lparr>assistReply := (\<lambda>conv. Inl (ErrUpstream ''model unavailable''))\<rparr>"

definition readOnlyServer :: Server where
  "readOnlyServer = exampleServer\<lparr>repo := (repo exampleServer)\<lparr>update_error := Some ''write failed''\<rparr>\<rparr>"

section \<open>Lemmas about the library functions\<close>















lemma wrap64_id: "- (2 ^ 63) \<le> x \<Longrightarrow> x < 2 ^ 63 \<Longrightarrow> wrap64 x = x"
  unfolding wrap64_def by (simp add: mod_pos_pos_trivial)

section \<open>The title of an empty conversation\<close>

text \<open>
  Claim C10. For a conversation with no messages, \<open>Title\<close> returns the fixed string
  "An empty conversation" with no error, and makes no request to the model provider.
\<close>

theorem Title_empty_conversation:
  "conv_messages conv = [] \<Longrightarrow> Title a conv = (Inr ''An empty conversation'', 0)"
  by (simp add: Title_def)

theorem Title_empty_conversation_witness:
  "conv_messages (exampleConversation\<lparr>conv_messages := []\<rparr>) = [] \<and>
   Title exampleAssistant (exampleConversation\<lparr>conv_messages := []\<rparr>)
     = (Inr ''An empty conversation'', 0)"
  using Title_empty_conversation [of "exampleConversation\<lparr>conv_messages := []\<rparr>" exampleAssistant]
  by simp

section \<open>The title budget\<close>

text \<open>
  Claim C9. With \<open>until\<close> the time remaining until the deadline of the request, the
  title budget is the minimum of 15 seconds and \<open>until\<close> minus the 500 ms margin, and
  500 ms when that minimum is not positive. The subtraction is a 64-bit one; it is the
  mathematical one when the deadline is less than about 292 years in the past, which is
  the hypothesis (the budget is computed after the store accepted a write under the
  same context).
\<close>

theorem titleBudget_min_floor:
  assumes "- (2 ^ 63) + 500 * Millisecond \<le> until" and "until < 2 ^ 63"
  shows "titleBudget until =
           (if min (15 * Second) (until - 500 * Millisecond) \<le> 0 then 500 * Millisecond
            else min (15 * Second) (until - 500 * Millisecond))"
proof -
  have "wrap64 (until - 500 * Millisecond) = until - 500 * Millisecond"
    using assms by (intro wrap64_id) (simp_all add: Millisecond_def)
  then show ?thesis
    by (simp add: titleBudget_def Let_def Second_def Millisecond_def min_def)
qed

theorem titleBudget_min_floor_witness:
  "titleBudget (30 * Second) = 15 * Second \<and>
   titleBudget (2 * Second) = 1500 * Millisecond \<and>
   titleBudget (200 * Millisecond) = 500 * Millisecond"
  using titleBudget_min_floor [of "30 * Second"] titleBudget_min_floor [of "2 * Second"]
    titleBudget_min_floor [of "200 * Millisecond"]
  by (simp add: Second_def Millisecond_def)


section \<open>The bound on the rounds of the tool loop\<close>

lemma replyLoop_calls_le: "fst (snd (replyLoop a i msgs)) \<le> 15 - i"
proof (induction a i msgs rule: replyLoop.induct)
  case (1 a i msgs)
  show ?case
    apply (subst replyLoop.simps)
    using 1
    apply (auto split: sum.splits list.splits prod.splits simp: anotherRound_def)
    apply fastforce
    done
qed

lemma dispatchCall_error:
  "dispatchCall a k c = (Inl e, reqs) \<Longrightarrow> e = ErrUnknownTool (call_name c) \<or> e = ErrNilDereference"
  by (auto simp: dispatchCall_def weatherTool_def holidaysTool_def Let_def
           split: if_splits sum.splits option.splits prod.splits)

lemma dispatchCalls_error:
  "dispatchCalls a k msgs cs = (Inl e, reqs) \<Longrightarrow> e \<noteq> ErrTooManyToolCalls"
proof (induction cs arbitrary: msgs reqs)
  case Nil
  then show ?case by simp
next
  case (Cons c cs)
  then show ?case
    by (auto split: prod.splits sum.splits dest: dispatchCall_error)
qed

lemma dispatchCalls_results:
  "list_all (dispatched a k) cs \<Longrightarrow>
   \<exists>ts reqs. dispatchCalls a k msgs cs = (Inr (msgs @ ts), reqs) \<and> list_all2 isToolResultFor cs ts"
proof (induction cs arbitrary: msgs)
  case Nil
  then show ?case by simp
next
  case (Cons c cs)
  from Cons.prems obtain m reqs where c: "dispatchCall a k c = (Inr m, reqs)"
    by (cases "dispatchCall a k c") (auto simp: dispatched_def split: sum.splits)
  then have m: "isToolResultFor c m"
    by (auto simp: dispatchCall_def weatherTool_def holidaysTool_def Let_def isToolResultFor_def
             split: if_splits sum.splits option.splits prod.splits)
  from Cons.prems have "list_all (dispatched a k) cs" by simp
  from Cons.IH [OF this, of "msgs @ [m]"] obtain ts reqs'
    where "dispatchCalls a k (msgs @ [m]) cs = (Inr (msgs @ [m] @ ts), reqs')"
      and "list_all2 isToolResultFor cs ts" by auto
  with c m have "dispatchCalls a k msgs (c # cs) = (Inr (msgs @ (m # ts)), reqs @ reqs') \<and>
                 list_all2 isToolResultFor (c # cs) (m # ts)" by simp
  then show ?case by blast
qed

lemma replyLoop_continues:
  assumes "i < 15" and "complete a i msgs toolNames = Inr (m # rest)"
    and "cm_tool_calls m \<noteq> []" and "list_all (dispatched a i) (cm_tool_calls m)"
  shows "\<exists>ts reqs. list_all2 isToolResultFor (cm_tool_calls m) ts \<and>
           replyLoop a i msgs =
             anotherRound reqs (replyLoop a (Suc i) (msgs @ [AssistantToolCalls m] @ ts))"
proof -
  from dispatchCalls_results [OF assms(4), of "msgs @ [AssistantToolCalls m]"] obtain ts reqs
    where d: "dispatchCalls a i (msgs @ [AssistantToolCalls m]) (cm_tool_calls m)
                = (Inr ((msgs @ [AssistantToolCalls m]) @ ts), reqs)"
      and ts: "list_all2 isToolResultFor (cm_tool_calls m) ts" by blast
  from assms(1-3) d
  have "replyLoop a i msgs = anotherRound reqs (replyLoop a (Suc i) (msgs @ [AssistantToolCalls m] @ ts))"
    by (subst replyLoop.simps) simp
  with ts show ?thesis by blast
qed

lemma replyLoop_exhausts:
  assumes stub: "\<forall>k<15. \<forall>msgs. toolCallRound a k msgs"
  shows "i \<le> 15 \<Longrightarrow> \<exists>reqs. replyLoop a i msgs = (Inl ErrTooManyToolCalls, 15 - i, reqs)"
proof (induction "15 - i" arbitrary: i msgs)
  case 0
  then have "i = 15" by simp
  then show ?case by (simp add: replyLoop.simps)
next
  case (Suc n)
  then have i: "i < 15" by simp
  with stub have "toolCallRound a i msgs" by blast
  then obtain m rest where m: "complete a i msgs toolNames = Inr (m # rest)"
    and nonempty: "cm_tool_calls m \<noteq> []" and ok: "list_all (dispatched a i) (cm_tool_calls m)"
    by (auto simp: toolCallRound_def split: sum.splits list.splits)
  from replyLoop_continues [OF i m nonempty ok] obtain ts reqs
    where step: "replyLoop a i msgs =
                   anotherRound reqs (replyLoop a (Suc i) (msgs @ [AssistantToolCalls m] @ ts))"
    by blast
  from Suc.hyps(2) i have "n = 15 - Suc i" by simp
  from Suc.hyps(1) [OF this, of "msgs @ [AssistantToolCalls m] @ ts"] i obtain reqs'
    where "replyLoop a (Suc i) (msgs @ [AssistantToolCalls m] @ ts)
             = (Inl ErrTooManyToolCalls, 15 - Suc i, reqs')" by auto
  with i step show ?case
    by (simp add: anotherRound_def Suc_diff_Suc)
qed

lemma replyLoop_too_many:
  "fst (replyLoop a i msgs) = Inl ErrTooManyToolCalls \<Longrightarrow> i \<le> 15 \<Longrightarrow>
   fst (snd (replyLoop a i msgs)) = 15 - i"
proof (induction a i msgs rule: replyLoop.induct)
  case (1 a i msgs)
  show ?case
  proof (cases "i < 15")
    case False
    with 1 show ?thesis by (simp add: replyLoop.simps)
  next
    case True
    show ?thesis
    proof (cases "complete a i msgs toolNames")
      case (Inl e)
      with True 1(2) show ?thesis by (simp add: replyLoop.simps)
    next
      case (Inr choices)
      show ?thesis
      proof (cases choices)
        case Nil
        with True Inr 1(2) show ?thesis by (simp add: replyLoop.simps)
      next
        case (Cons m rest)
        show ?thesis
        proof (cases "length (cm_tool_calls m) > 0")
          case False
          with True Inr Cons 1(2) show ?thesis by (simp add: replyLoop.simps)
        next
          case calls: True
          obtain r reqs
            where d: "dispatchCalls a i (msgs @ [AssistantToolCalls m]) (cm_tool_calls m) = (r, reqs)"
            by (cases "dispatchCalls a i (msgs @ [AssistantToolCalls m]) (cm_tool_calls m)")
          show ?thesis
          proof (cases r)
            case (Inl e)
            with d have "e \<noteq> ErrTooManyToolCalls" by (auto dest: dispatchCalls_error)
            with True Inr Cons calls d Inl 1(2) show ?thesis by (simp add: replyLoop.simps)
          next
            case msgs': (Inr msgs')
            have eq: "replyLoop a i msgs = anotherRound reqs (replyLoop a (Suc i) msgs')"
              using True Inr Cons calls d msgs' by (subst replyLoop.simps) simp
            with 1(2) have "fst (replyLoop a (Suc i) msgs') = Inl ErrTooManyToolCalls"
              by (simp add: anotherRound_def split: prod.splits)
            with 1(1) [OF True Inr Cons calls d [symmetric] msgs'] True
            have "fst (snd (replyLoop a (Suc i) msgs')) = 15 - Suc i" by simp
            with eq True show ?thesis
              by (simp add: anotherRound_def split: prod.splits)
          qed
        qed
      qed
    qed
  qed
qed

text \<open>
  Claim C2. A run of \<open>Reply\<close> makes at most 15 requests to the model provider. The
  error "too many tool calls" is returned only after exactly 15 of them; and when each
  of the 15 rounds is answered with tool calls (all dispatched) and no final answer,
  \<open>Reply\<close> returns that error after exactly 15 requests.
\<close>

theorem Reply_round_bound:
  "fst (snd (Reply a conv)) \<le> 15 \<and>
   (fst (Reply a conv) = Inl ErrTooManyToolCalls \<longrightarrow> fst (snd (Reply a conv)) = 15) \<and>
   (conv_messages conv \<noteq> [] \<and> (\<forall>k<15. \<forall>msgs. toolCallRound a k msgs) \<longrightarrow>
      fst (Reply a conv) = Inl ErrTooManyToolCalls \<and> fst (snd (Reply a conv)) = 15)"
proof (intro conjI impI)
  show "fst (snd (Reply a conv)) \<le> 15"
    using replyLoop_calls_le [of a 0] by (simp add: Reply_def)
next
  assume "fst (Reply a conv) = Inl ErrTooManyToolCalls"
  then show "fst (snd (Reply a conv)) = 15"
    using replyLoop_too_many [of a 0] by (simp add: Reply_def split: if_splits)
next
  assume h: "conv_messages conv \<noteq> [] \<and> (\<forall>k<15. \<forall>msgs. toolCallRound a k msgs)"
  then obtain reqs
    where "replyLoop a 0 (SystemMessage (replyPrompt a) # concat (map (replyMsg a) (conv_messages conv)))
             = (Inl ErrTooManyToolCalls, 15 - 0, reqs)"
    using replyLoop_exhausts [of a 0] by blast
  with h show "fst (Reply a conv) = Inl ErrTooManyToolCalls"
    and "fst (snd (Reply a conv)) = 15"
    by (simp_all add: Reply_def)
qed

theorem Reply_round_bound_witness:
  "conv_messages exampleConversation \<noteq> [] \<and>
   fst (Reply exampleAssistant exampleConversation) = Inl ErrTooManyToolCalls \<and>
   fst (snd (Reply exampleAssistant exampleConversation)) = 15"
proof -
  have nonempty: "conv_messages exampleConversation \<noteq> []"
    by (simp add: exampleConversation_def)
  have stub: "\<forall>k<15. \<forall>msgs. toolCallRound exampleAssistant k msgs"
    by (simp add: toolCallRound_def exampleAssistant_def dispatched_def dispatchCall_def)
  from nonempty stub Reply_round_bound [of exampleAssistant exampleConversation]
  show ?thesis by blast
qed


section \<open>Failures of a tool call\<close>








section \<open>The weather tool: current conditions or forecast\<close>

text \<open>
  Claim C5, as the specification states it, fails: a day count beyond the supported
  range is not clamped to the bound of the range. For 20 days the request asks for 3
  days, not for 14.
\<close>

theorem forecast_days_not_clamped:
  "snd (dispatchCall exampleAssistant 0 (weatherCall ''Paris, 20 days''))
     = [forecastRequest exampleService ''Paris'' 3] \<and>
   forecastRequest exampleService ''Paris'' 3
     \<noteq> forecastRequest exampleService ''Paris'' (specClampDays 20)"
  by code_simp

text \<open>
  Claim C5, amended. For a \<open>get_weather\<close> call with valid arguments and a configured
  weather service, exactly one request is made: for the current conditions when
  \<open>forecast_days\<close> is absent or not positive; for a forecast when it is positive, over
  that many days when it is at most 14, and over the default of 3 days when it is more.
\<close>

theorem get_weather_requests:
  assumes "call_name c = ''get_weather''"
    and "unmarshalWeather a (call_arguments c) = Inr p"
    and "weatherService a = Some w"
  shows "snd (dispatchCall a i c) =
           (case wp_ForecastDays p of
              None \<Rightarrow> [currentRequest w (wp_Location p)]
            | Some d \<Rightarrow>
                if d \<le> 0 then [currentRequest w (wp_Location p)]
                else [forecastRequest w (wp_Location p) (if d > 14 then 3 else d)])"
  using assms
  by (auto simp: dispatchCall_def weatherTool_def fetchWeather_def GetForecast_def
        GetCurrentWeather_def Let_def split: option.splits sum.splits prod.splits)

theorem get_weather_requests_witness:
  "snd (dispatchCall exampleAssistant 0 (weatherCall ''Paris now''))
     = [currentRequest exampleService ''Paris''] \<and>
   snd (dispatchCall exampleAssistant 0 (weatherCall ''Paris, 20 days''))
     = [forecastRequest exampleService ''Paris'' 3]"
proof -
  have name: "call_name (weatherCall args) = ''get_weather''" for args
    by (simp add: weatherCall_def)
  have now: "unmarshalWeather exampleAssistant (call_arguments (weatherCall ''Paris now''))
               = Inr \<lparr>wp_Location = ''Paris'', wp_ForecastDays = None\<rparr>"
    by (simp add: weatherCall_def exampleAssistant_def)
  have days: "unmarshalWeather exampleAssistant (call_arguments (weatherCall ''Paris, 20 days''))
                = Inr \<lparr>wp_Location = ''Paris'', wp_ForecastDays = Some 20\<rparr>"
    by (simp add: weatherCall_def exampleAssistant_def)
  have service: "weatherService exampleAssistant = Some exampleService"
    by (simp add: exampleAssistant_def)
  from get_weather_requests [OF name now service, of 0]
    get_weather_requests [OF name days service, of 0]
  show ?thesis by simp
qed

section \<open>The holidays tool\<close>

lemma collectHolidays_unbounded:
  assumes "\<not> hp_MaxCount p > 0"
  shows "\<forall>ev \<in> set (filter (dateSelected p) evs). ev_summary ev \<noteq> None \<Longrightarrow>
         collectHolidays fmt p evs acc = Some (acc @ map (holidayLine fmt) (filter (dateSelected p) evs))"
proof (induction evs arbitrary: acc)
  case Nil
  then show ?case by simp
next
  case (Cons ev evs)
  show ?case
  proof (cases "dateSelected p ev")
    case False
    with Cons assms show ?thesis
      by (auto simp: dateSelected_def split: option.splits)
  next
    case True
    with Cons.prems obtain date name where ev: "ev_start ev = Some date" "ev_summary ev = Some name"
      by (auto simp: dateSelected_def split: option.splits)
    from Cons.prems have "\<forall>ev \<in> set (filter (dateSelected p) evs). ev_summary ev \<noteq> None" by simp
    from Cons.IH [OF this] True ev assms show ?thesis
      by (auto simp: dateSelected_def holidayLine_def)
  qed
qed

lemma collectHolidays_bounded:
  assumes "hp_MaxCount p > 0"
  shows "\<forall>ev \<in> set (take (nat (hp_MaxCount p) - length acc) (filter (dateSelected p) evs)).
            ev_summary ev \<noteq> None \<Longrightarrow>
         collectHolidays fmt p evs acc =
           Some (acc @ map (holidayLine fmt)
                   (take (nat (hp_MaxCount p) - length acc) (filter (dateSelected p) evs)))"
proof (induction evs arbitrary: acc)
  case Nil
  then show ?case by simp
next
  case (Cons ev evs)
  show ?case
  proof (cases "ev_start ev")
    case None
    with Cons show ?thesis by (simp add: dateSelected_def)
  next
    case (Some date)
    show ?thesis
    proof (cases "int (length acc) \<ge> hp_MaxCount p")
      case True
      then have "nat (hp_MaxCount p) - length acc = 0" by simp
      with True Some assms show ?thesis by simp
    next
      case room: False
      show ?thesis
      proof (cases "dateSelected p ev")
        case False
        with Cons Some room show ?thesis
          by (auto simp: dateSelected_def)
      next
        case True
        have more: "nat (hp_MaxCount p) - length acc = Suc (nat (hp_MaxCount p) - Suc (length acc))"
          using room by simp
        from Cons.prems True obtain name where name: "ev_summary ev = Some name"
          by (subst (asm) more) auto
        from Cons.prems True
        have "\<forall>ev \<in> set (take (nat (hp_MaxCount p) - length (acc @ [fmt date @ '': '' @ name]))
                 (filter (dateSelected p) evs)). ev_summary ev \<noteq> None"
          using more by auto
        from Cons.IH [OF this] True Some room name more show ?thesis
          by (auto simp: dateSelected_def holidayLine_def)
      qed
    qed
  qed
qed

lemma collectHolidays_eq:
  assumes "\<forall>ev \<in> set (truncateAt (hp_MaxCount p) (filter (dateSelected p) evs)). ev_summary ev \<noteq> None"
  shows "collectHolidays fmt p evs [] =
           Some (map (holidayLine fmt) (truncateAt (hp_MaxCount p) (filter (dateSelected p) evs)))"
proof (cases "hp_MaxCount p > 0")
  case True
  with assms collectHolidays_bounded [OF True, of "[]" evs fmt] show ?thesis
    by (simp add: truncateAt_def)
next
  case False
  with assms collectHolidays_unbounded [OF False, of evs fmt "[]"] show ?thesis
    by (simp add: truncateAt_def)
qed

text \<open>
  Claim C6. For a \<open>get_holidays\<close> call over a loaded feed, with arguments that decode,
  the tool result lists exactly the events that have a date not after \<open>before_date\<close>
  (when given) and not before \<open>after_date\<close> (when given), in the order of the feed, cut
  at \<open>max_count\<close> when that is positive, one line "date: name" per event, the lines
  joined by line feeds. The events listed are taken to have a name (a SUMMARY property).
\<close>

theorem get_holidays_result:
  assumes "call_name c = ''get_holidays''"
    and "LoadCalendar a (if holidayLinkEnv a \<noteq> [] then holidayLinkEnv a else defaultHolidayLink)
           = Inr evs"
    and "unmarshalHolidays a (call_arguments c) = Inr p"
    and "\<forall>ev \<in> set (truncateAt (hp_MaxCount p) (filter (dateSelected p) evs)). ev_summary ev \<noteq> None"
  shows "dispatchCall a i c =
           (Inr (ToolMessage
                  (Join (map (holidayLine (formatDateOnly a))
                           (truncateAt (hp_MaxCount p) (filter (dateSelected p) evs)))
                        [CHR 0x0A])
                  (call_id c)), [])"
  using assms(1-3) collectHolidays_eq [OF assms(4), of "formatDateOnly a"]
  by (simp add: dispatchCall_def holidaysTool_def Let_def)

theorem get_holidays_result_witness:
  "dispatchCall exampleAssistant 0 (holidaysCall ''after day 32, at most 1'')
     = (Inr (ToolMessage ''day 167: Midsummer'' ''call_4''), [])"
proof -
  let ?evs = "[\<lparr>ev_start = Some 1, ev_summary = Some ''New Year''\<rparr>,
               \<lparr>ev_start = Some 167, ev_summary = Some ''Midsummer''\<rparr>,
               \<lparr>ev_start = Some 360, ev_summary = Some ''Christmas''\<rparr>]"
  let ?p = "\<lparr>hp_BeforeDate = 0, hp_AfterDate = 32, hp_MaxCount = 1\<rparr>"
  have name: "call_name (holidaysCall ''after day 32, at most 1'') = ''get_holidays''"
    by (simp add: holidaysCall_def)
  have feed: "LoadCalendar exampleAssistant
                (if holidayLinkEnv exampleAssistant \<noteq> [] then holidayLinkEnv exampleAssistant
                 else defaultHolidayLink) = Inr ?evs"
    by (simp add: exampleAssistant_def)
  have args: "unmarshalHolidays exampleAssistant
                (call_arguments (holidaysCall ''after day 32, at most 1'')) = Inr ?p"
    by (simp add: holidaysCall_def exampleAssistant_def)
  have selected: "truncateAt (hp_MaxCount ?p) (filter (dateSelected ?p) ?evs)
                    = [\<lparr>ev_start = Some 167, ev_summary = Some ''Midsummer''\<rparr>]"
    by (simp add: truncateAt_def dateSelected_def IsZero_def)
  have named: "\<forall>ev \<in> set (truncateAt (hp_MaxCount ?p) (filter (dateSelected ?p) ?evs)).
                 ev_summary ev \<noteq> None"
    unfolding selected by simp
  have line: "Itoa 167 = ''167''" by code_simp
  from get_holidays_result [OF name feed args named, of 0] show ?thesis
    unfolding selected
    by (simp add: holidayLine_def exampleAssistant_def holidaysCall_def line)
qed


section \<open>Normalisation of a title before it is cached\<close>




section \<open>The title cache\<close>

lemma makeTitleKey_update [simp]:
  "makeTitleKey (srv\<lparr>titleLRU := c\<rparr>) conv m v = makeTitleKey srv conv m v"
  "makeTitleKey (srv\<lparr>assistTitle := f\<rparr>) conv m v = makeTitleKey srv conv m v"
  "makeTitleKey (srv\<lparr>repo := r\<rparr>) conv m v = makeTitleKey srv conv m v"
  by (simp_all add: makeTitleKey_def normalizeForKey_def split: list.splits)

lemma lruGet_miss: "map_of (lru_items c) k = None \<Longrightarrow> lruGet c k = (None, c)"
  by (simp add: lruGet_def)

lemma lruGet_after_Add:
  assumes "0 < lru_size c"
  shows "fst (lruGet (lruAdd c k v) k) = Some v"
proof -
  let ?rest = "filter (\<lambda>kv. fst kv \<noteq> k) (lru_items c)"
  have "map_of (if length ((k, v) # ?rest) > lru_size c then butlast ((k, v) # ?rest)
                else (k, v) # ?rest) k = Some v"
    using assms by (cases ?rest) auto
  then show ?thesis by (simp add: lruGet_def lruAdd_def Let_def)
qed

text \<open>
  Claim C3. Take a cache of positive capacity that has no entry for the key of the
  conversation. When the title computation succeeds with a title whose normalisation is
  not empty, \<open>generateTitle\<close> returns the normalised title, and the next call with the
  same key, whatever its computation would do, returns that title without calling it.
  When the normalisation is empty, the raw title is returned and the server (its cache)
  is unchanged, so a later call with the same key calls its computation again, and
  returns that one's title. When the computation fails, the error is returned and the
  cache is unchanged.
\<close>

theorem generateTitle_caches:
  assumes cap: "0 < lru_size (titleLRU srv)"
    and miss: "map_of (lru_items (titleLRU srv)) (makeTitleKey srv conv ''o1'' ''v1'') = None"
  shows
   "(assistTitle srv b conv = Inr t \<and> normalizeTitle t \<noteq> [] \<longrightarrow>
       fst (generateTitle srv b conv) = Inr (normalizeTitle t) \<and>
       (\<forall>f b' conv'.
          makeTitleKey srv conv' ''o1'' ''v1'' = makeTitleKey srv conv ''o1'' ''v1'' \<longrightarrow>
          fst (generateTitle ((fst (snd (generateTitle srv b conv)))\<lparr>assistTitle := f\<rparr>) b' conv')
             = Inr (normalizeTitle t) \<and>
          snd (snd (generateTitle ((fst (snd (generateTitle srv b conv)))\<lparr>assistTitle := f\<rparr>) b' conv'))
             = [])) \<and>
    (assistTitle srv b conv = Inr t \<and> normalizeTitle t = [] \<longrightarrow>
       generateTitle srv b conv = (Inr t, srv, [CallTitle b conv]) \<and>
       (\<forall>f b'. snd (snd (generateTitle (srv\<lparr>assistTitle := f\<rparr>) b' conv)) = [CallTitle b' conv] \<and>
          (\<forall>t'. f b' conv = Inr t' \<and> normalizeTitle t' \<noteq> [] \<longrightarrow>
             fst (generateTitle (srv\<lparr>assistTitle := f\<rparr>) b' conv) = Inr (normalizeTitle t')))) \<and>
    (assistTitle srv b conv = Inl e \<longrightarrow>
       generateTitle srv b conv = (Inl e, srv, [CallTitle b conv]))"
proof (intro conjI impI allI)
  assume ok: "assistTitle srv b conv = Inr t \<and> normalizeTitle t \<noteq> []"
  let ?key = "makeTitleKey srv conv ''o1'' ''v1''"
  from ok miss
  have g: "generateTitle srv b conv =
             (Inr (normalizeTitle t), srv\<lparr>titleLRU := lruAdd (titleLRU srv) ?key (normalizeTitle t)\<rparr>,
              [CallTitle b conv])"
    by (simp add: generateTitle_def Let_def lruGet_miss)
  then show "fst (generateTitle srv b conv) = Inr (normalizeTitle t)" by simp
  fix f :: "int \<Rightarrow> conversation \<Rightarrow> error + string" and b' :: int and conv' :: conversation
  assume same: "makeTitleKey srv conv' ''o1'' ''v1'' = ?key"
  let ?srv' = "(fst (snd (generateTitle srv b conv)))\<lparr>assistTitle := f\<rparr>"
  have lru: "titleLRU ?srv' = lruAdd (titleLRU srv) ?key (normalizeTitle t)"
    and key: "makeTitleKey ?srv' conv' ''o1'' ''v1'' = ?key"
    using g same by simp_all
  from lruGet_after_Add [OF cap, of ?key "normalizeTitle t"]
  obtain c' where "lruGet (lruAdd (titleLRU srv) ?key (normalizeTitle t)) ?key = (Some (normalizeTitle t), c')"
    by (cases "lruGet (lruAdd (titleLRU srv) ?key (normalizeTitle t)) ?key") auto
  with lru key
  have "generateTitle ?srv' b' conv' = (Inr (normalizeTitle t), ?srv'\<lparr>titleLRU := c'\<rparr>, [])"
    by (simp add: generateTitle_def Let_def)
  then show "fst (generateTitle ?srv' b' conv') = Inr (normalizeTitle t)"
    and "snd (snd (generateTitle ?srv' b' conv')) = []" by simp_all
next
  assume "assistTitle srv b conv = Inr t \<and> normalizeTitle t = []"
  with miss show "generateTitle srv b conv = (Inr t, srv, [CallTitle b conv])"
    by (simp add: generateTitle_def Let_def lruGet_miss)
next
  fix f :: "int \<Rightarrow> conversation \<Rightarrow> error + string" and b' :: int
  from miss show "snd (snd (generateTitle (srv\<lparr>assistTitle := f\<rparr>) b' conv)) = [CallTitle b' conv]"
    by (simp add: generateTitle_def Let_def lruGet_miss split: sum.splits)
next
  fix f :: "int \<Rightarrow> conversation \<Rightarrow> error + string" and b' :: int and t' :: string
  assume "f b' conv = Inr t' \<and> normalizeTitle t' \<noteq> []"
  with miss show "fst (generateTitle (srv\<lparr>assistTitle := f\<rparr>) b' conv) = Inr (normalizeTitle t')"
    by (simp add: generateTitle_def Let_def lruGet_miss)
next
  assume "assistTitle srv b conv = Inl e"
  with miss show "generateTitle srv b conv = (Inl e, srv, [CallTitle b conv])"
    by (simp add: generateTitle_def Let_def lruGet_miss)
qed


theorem generateTitle_caches_witness:
  "fst (generateTitle exampleServer 15 exampleConversation) = Inr ''Weather in Barcelona'' \<and>
   fst (generateTitle
          ((fst (snd (generateTitle exampleServer 15 exampleConversation)))
             \<lparr>assistTitle := (\<lambda>budget conv. Inl ErrEmptyTitle)\<rparr>) 15 exampleConversation)
     = Inr ''Weather in Barcelona'' \<and>
   snd (snd (generateTitle
          ((fst (snd (generateTitle exampleServer 15 exampleConversation)))
             \<lparr>assistTitle := (\<lambda>budget conv. Inl ErrEmptyTitle)\<rparr>) 15 exampleConversation))
     = [] \<and>
   generateTitle (exampleServer\<lparr>assistTitle := (\<lambda>budget conv. Inr ''  '')\<rparr>) 15 exampleConversation
     = (Inr ''  '', exampleServer\<lparr>assistTitle := (\<lambda>budget conv. Inr ''  '')\<rparr>,
        [CallTitle 15 exampleConversation])"
proof -
  let ?blank = "exampleServer\<lparr>assistTitle := (\<lambda>budget conv. Inr ''  '')\<rparr>"
  have cap: "0 < lru_size (titleLRU exampleServer)" "0 < lru_size (titleLRU ?blank)"
    by (simp_all add: exampleServer_def)
  have miss:
    "map_of (lru_items (titleLRU exampleServer)) (makeTitleKey exampleServer exampleConversation ''o1'' ''v1'')
       = None"
    "map_of (lru_items (titleLRU ?blank)) (makeTitleKey ?blank exampleConversation ''o1'' ''v1'') = None"
    by (simp_all add: exampleServer_def)
  have title: "assistTitle exampleServer 15 exampleConversation = Inr ''Weather in Barcelona''"
    by (simp add: exampleServer_def)
  have norm: "normalizeTitle ''Weather in Barcelona'' = ''Weather in Barcelona''"
    by code_simp
  have blank: "assistTitle ?blank 15 exampleConversation = Inr ''  ''" by simp
  have empty: "normalizeTitle ''  '' = []" by code_simp
  from generateTitle_caches [OF cap(1) miss(1), of 15 "''Weather in Barcelona''"] title norm
  have first: "fst (generateTitle exampleServer 15 exampleConversation) = Inr ''Weather in Barcelona''"
    and later: "\<forall>f b' conv'.
          makeTitleKey exampleServer conv' ''o1'' ''v1''
            = makeTitleKey exampleServer exampleConversation ''o1'' ''v1'' \<longrightarrow>
          fst (generateTitle ((fst (snd (generateTitle exampleServer 15 exampleConversation)))
                 \<lparr>assistTitle := f\<rparr>) b' conv') = Inr ''Weather in Barcelona'' \<and>
          snd (snd (generateTitle ((fst (snd (generateTitle exampleServer 15 exampleConversation)))
                 \<lparr>assistTitle := f\<rparr>) b' conv')) = []"
    by simp_all
  from later have second:
    "fst (generateTitle ((fst (snd (generateTitle exampleServer 15 exampleConversation)))
            \<lparr>assistTitle := (\<lambda>budget conv. Inl ErrEmptyTitle)\<rparr>) 15 exampleConversation)
       = Inr ''Weather in Barcelona'' \<and>
     snd (snd (generateTitle ((fst (snd (generateTitle exampleServer 15 exampleConversation)))
            \<lparr>assistTitle := (\<lambda>budget conv. Inl ErrEmptyTitle)\<rparr>) 15 exampleConversation)) = []"
    by blast
  from generateTitle_caches [OF cap(2) miss(2), of 15 "''  ''"] blank empty
  have third: "generateTitle ?blank 15 exampleConversation
                 = (Inr ''  '', ?blank, [CallTitle 15 exampleConversation])"
    by blast
  from first second third show ?thesis by blast
qed


section \<open>Persistence in a turn\<close>

lemma generateTitle_repo [simp]: "repo (fst (snd (generateTitle srv b c))) = repo srv"
  by (simp add: generateTitle_def Let_def split: prod.splits option.splits sum.splits)

lemma titleTask_repo [simp]: "repo (fst (snd (titleTask srv c))) = repo srv"
proof -
  obtain r srv' effs where g: "generateTitle srv (titleBudget (untilDeadline srv)) c = (r, srv', effs)"
    by (cases "generateTitle srv (titleBudget (untilDeadline srv)) c")
  then have "repo srv' = repo srv"
    using generateTitle_repo [of srv "titleBudget (untilDeadline srv)" c] by simp
  with g show ?thesis
    by (simp add: titleTask_def split: sum.splits)
qed

lemma generateTitle_repo_update:
  "fst (generateTitle (srv\<lparr>repo := r\<rparr>) b c) = fst (generateTitle srv b c)"
  by (simp add: generateTitle_def Let_def split: prod.splits option.splits sum.splits)

lemma titleTask_repo_update: "fst (titleTask (srv\<lparr>repo := r\<rparr>) c) = fst (titleTask srv c)"
proof -
  obtain x srv1 effs1 where g1: "generateTitle srv (titleBudget (untilDeadline srv)) c = (x, srv1, effs1)"
    by (cases "generateTitle srv (titleBudget (untilDeadline srv)) c")
  obtain y srv2 effs2
    where g2: "generateTitle (srv\<lparr>repo := r\<rparr>) (titleBudget (untilDeadline srv)) c = (y, srv2, effs2)"
    by (cases "generateTitle (srv\<lparr>repo := r\<rparr>) (titleBudget (untilDeadline srv)) c")
  from g1 g2 generateTitle_repo_update [where srv = srv and r = r and b = "titleBudget (untilDeadline srv)" and c = c]
  have "y = x" by simp
  with g1 g2 show ?thesis
    by (simp add: titleTask_def split: sum.splits)
qed

lemma newConversation_holds: "holdsUserMessage msg (newConversation srv msg)"
  by (simp add: holdsUserMessage_def newConversation_def Let_def)

lemma StartConversation_effects:
  "snd (snd (StartConversation srv msg)) = [] \<or>
   snd (snd (StartConversation srv msg)) = [RepoCreateFailed (newConversation srv msg)] \<or>
   (\<exists>rest. snd (snd (StartConversation srv msg)) = RepoCreate (newConversation srv msg) # rest)"
  by (simp add: StartConversation_def Let_def split: prod.splits sum.splits)

lemma StartConversation_reply_fails:
  assumes "TrimSpace msg \<noteq> []" and "create_error (repo srv) = None"
    and "assistReply srv (newConversation srv msg) = Inl e"
  shows "fst (StartConversation srv msg) = Inl (InternalErrorWith e)"
    and "stored (repo (fst (snd (StartConversation srv msg)))) (newObjectID srv 0)
           = Some (newConversation srv msg)"
proof -
  let ?c = "newConversation srv msg"
  let ?r1 = "(repo srv)\<lparr>stored := (stored (repo srv))(conv_id ?c \<mapsto> ?c)\<rparr>"
  have create: "CreateConversation (repo srv) ?c = (Inr (), ?r1)"
    using assms(2) by (simp add: CreateConversation_def)
  obtain title srv2 effs where t: "titleTask (srv\<lparr>repo := ?r1\<rparr>) ?c = (title, srv2, effs)"
    by (cases "titleTask (srv\<lparr>repo := ?r1\<rparr>) ?c")
  then have r2: "repo srv2 = ?r1"
    using titleTask_repo [of "srv\<lparr>repo := ?r1\<rparr>" ?c] by simp
  have cid: "conv_id ?c = newObjectID srv 0" by (simp add: newConversation_def Let_def)
  from assms(1,3) create t
  have res: "StartConversation srv msg =
          (Inl (InternalErrorWith e), srv2,
           RepoCreate ?c # (if titleFirst srv then effs @ [CallReply ?c] else [CallReply ?c] @ effs))"
    by (simp add: StartConversation_def Let_def)
  then show "fst (StartConversation srv msg) = Inl (InternalErrorWith e)" by simp
  from res r2 cid
  show "stored (repo (fst (snd (StartConversation srv msg)))) (newObjectID srv 0) = Some ?c"
    by simp
qed

text \<open>
  Claim C1, as the specification states it, fails for a turn that continues a
  conversation: the assistant is called before anything is written, and when it fails
  the stored conversation is the one from before the turn, without the new user message.
\<close>

theorem ContinueConversation_generates_before_persisting:
  "\<not> persistedBeforeGeneration ''And tomorrow?''
       (snd (snd (ContinueConversation unavailableServer ''c1'' ''And tomorrow?''))) \<and>
   stored (repo (fst (snd (ContinueConversation unavailableServer ''c1'' ''And tomorrow?'')))) ''c1''
     = Some exampleConversation \<and>
   \<not> holdsUserMessage ''And tomorrow?'' exampleConversation"
proof -
  have trim: "TrimSpace ''And tomorrow?'' = ''And tomorrow?''" by code_simp
  show ?thesis
    by (simp add: ContinueConversation_def trim unavailableServer_def exampleServer_def
          DescribeConversation_def Let_def persistsUserMessage_def isGeneration_def
          holdsUserMessage_def exampleConversation_def)
qed

text \<open>
  Claim C1, amended. For a turn that starts a conversation, the conversation with the
  new user message is written to the store before any call for a title or a reply; and
  when the reply then fails, the turn fails and the store still holds that conversation.
\<close>

theorem StartConversation_persists_before_generation:
  "persistedBeforeGeneration msg (snd (snd (StartConversation srv msg))) \<and>
   (TrimSpace msg \<noteq> [] \<and> create_error (repo srv) = None \<and>
    assistReply srv (newConversation srv msg) = Inl e \<longrightarrow>
      fst (StartConversation srv msg) = Inl (InternalErrorWith e) \<and>
      stored (repo (fst (snd (StartConversation srv msg)))) (newObjectID srv 0)
        = Some (newConversation srv msg) \<and>
      holdsUserMessage msg (newConversation srv msg))"
proof (intro conjI impI)
  from StartConversation_effects [of srv msg]
  show "persistedBeforeGeneration msg (snd (snd (StartConversation srv msg)))"
    by (auto simp: persistsUserMessage_def isGeneration_def newConversation_holds)
next
  assume h: "TrimSpace msg \<noteq> [] \<and> create_error (repo srv) = None \<and>
             assistReply srv (newConversation srv msg) = Inl e"
  then show "fst (StartConversation srv msg) = Inl (InternalErrorWith e)"
    and "stored (repo (fst (snd (StartConversation srv msg)))) (newObjectID srv 0)
           = Some (newConversation srv msg)"
    using StartConversation_reply_fails [of msg srv e] by simp_all
  show "holdsUserMessage msg (newConversation srv msg)" by (rule newConversation_holds)
qed


theorem StartConversation_persists_before_generation_witness:
  "persistedBeforeGeneration ''And tomorrow?''
     (snd (snd (StartConversation unavailableServer ''And tomorrow?''))) \<and>
   fst (StartConversation unavailableServer ''And tomorrow?'')
     = Inl (InternalErrorWith (ErrUpstream ''model unavailable'')) \<and>
   stored (repo (fst (snd (StartConversation unavailableServer ''And tomorrow?''))))
      (newObjectID unavailableServer 0)
     = Some (newConversation unavailableServer ''And tomorrow?'')"
proof -
  have trim: "TrimSpace ''And tomorrow?'' \<noteq> []" by code_simp
  have create: "create_error (repo unavailableServer) = None"
    by (simp add: unavailableServer_def exampleServer_def)
  have reply: "assistReply unavailableServer (newConversation unavailableServer ''And tomorrow?'')
                 = Inl (ErrUpstream ''model unavailable'')"
    by (simp add: unavailableServer_def)
  from trim create reply
    StartConversation_persists_before_generation
      [of "''And tomorrow?''" unavailableServer "ErrUpstream ''model unavailable''"]
  show ?thesis by blast
qed

section \<open>A failure of the final write\<close>

text \<open>
  Claim C8, as the specification states it, fails for a turn that continues a
  conversation: the reply was generated, the final write is rejected, and the turn
  fails with that error instead of returning the reply.
\<close>

theorem ContinueConversation_update_failure_fatal:
  "fst (ContinueConversation readOnlyServer ''c1'' ''And tomorrow?'')
     = Inl (InternalErrorWith (ErrUpstream ''write failed'')) \<and>
   list_ex (writeRejected ''It is sunny!'')
     (snd (snd (ContinueConversation readOnlyServer ''c1'' ''And tomorrow?'')))"
proof -
  have trim: "TrimSpace ''And tomorrow?'' = ''And tomorrow?''" by code_simp
  show ?thesis
    by (simp add: ContinueConversation_def trim readOnlyServer_def exampleServer_def
          DescribeConversation_def UpdateConversation_def Let_def writeRejected_def
          exampleConversation_def)
qed

text \<open>
  Claim C8, amended. For a turn that starts a conversation and whose reply generation
  succeeded, a failure of the final write does not fail the turn: the failure is
  logged, and the response carries the reply and the title that were computed (the
  title of the title task, or the default one when that is empty), as it would had the
  write succeeded.
\<close>

theorem StartConversation_update_failure_nonfatal:
  assumes "TrimSpace msg \<noteq> []" and "create_error (repo srv) = None"
    and "assistReply srv (newConversation srv msg) = Inr reply"
    and "update_error (repo srv) = Some e"
  shows "fst (StartConversation srv msg) =
           Inr \<lparr>resp_ConversationId = newObjectID srv 0,
                resp_Title = (if fst (titleTask srv (newConversation srv msg)) \<noteq> []
                              then fst (titleTask srv (newConversation srv msg))
                              else ''Untitled conversation''),
                resp_Reply = reply\<rparr> \<and>
         list_ex (writeRejected reply) (snd (snd (StartConversation srv msg))) \<and>
         LogError ''Failed to update conversation'' \<in> set (snd (snd (StartConversation srv msg))) \<and>
         fst (StartConversation srv msg)
           = fst (StartConversation (srv\<lparr>repo := (repo srv)\<lparr>update_error := None\<rparr>\<rparr>) msg)"
proof -
  let ?c = "newConversation srv msg"
  let ?srv0 = "srv\<lparr>repo := (repo srv)\<lparr>update_error := None\<rparr>\<rparr>"
  let ?r1 = "(repo srv)\<lparr>stored := (stored (repo srv))(conv_id ?c \<mapsto> ?c)\<rparr>"
  let ?r1' = "(repo ?srv0)\<lparr>stored := (stored (repo ?srv0))(conv_id ?c \<mapsto> ?c)\<rparr>"
  have c0: "newConversation ?srv0 msg = ?c" by (simp add: newConversation_def)
  have create: "CreateConversation (repo srv) ?c = (Inr (), ?r1)"
    using assms(2) by (simp add: CreateConversation_def)
  have create': "CreateConversation (repo ?srv0) ?c = (Inr (), ?r1')"
    using assms(2) by (simp add: CreateConversation_def)
  obtain title srv2 effs where t: "titleTask (srv\<lparr>repo := ?r1\<rparr>) ?c = (title, srv2, effs)"
    by (cases "titleTask (srv\<lparr>repo := ?r1\<rparr>) ?c")
  obtain title' srv2' effs' where t': "titleTask (?srv0\<lparr>repo := ?r1'\<rparr>) ?c = (title', srv2', effs')"
    by (cases "titleTask (?srv0\<lparr>repo := ?r1'\<rparr>) ?c")
  from t have title: "title = fst (titleTask srv ?c)"
    using titleTask_repo_update [where srv = srv and r = ?r1 and c = ?c] by simp
  from t' have "title' = fst (titleTask (srv\<lparr>repo := ?r1'\<rparr>) ?c)" by simp
  then have title': "title' = fst (titleTask srv ?c)"
    using titleTask_repo_update [where srv = srv and r = ?r1' and c = ?c] by simp
  from t have r2: "repo srv2 = ?r1"
    using titleTask_repo [of "srv\<lparr>repo := ?r1\<rparr>" ?c] by simp
  from t' have r2': "repo srv2' = ?r1'"
    using titleTask_repo [of "?srv0\<lparr>repo := ?r1'\<rparr>" ?c] by simp
  have cid: "conv_id ?c = newObjectID srv 0" and ctitle: "conv_title ?c = ''Untitled conversation''"
    by (simp_all add: newConversation_def Let_def)
  let ?resp = "\<lparr>resp_ConversationId = newObjectID srv 0,
                resp_Title = (if fst (titleTask srv ?c) \<noteq> [] then fst (titleTask srv ?c)
                              else ''Untitled conversation''),
                resp_Reply = reply\<rparr>"
  from assms create t r2 title cid ctitle
  have res: "fst (StartConversation srv msg) = Inr ?resp"
    and rejected: "list_ex (writeRejected reply) (snd (snd (StartConversation srv msg)))"
    and logged: "LogError ''Failed to update conversation'' \<in> set (snd (snd (StartConversation srv msg)))"
    by (simp_all add: StartConversation_def Let_def UpdateConversation_def writeRejected_def)
  from assms(1,3) c0 create' t' r2' title' cid ctitle
  have "fst (StartConversation ?srv0 msg) = Inr ?resp"
    by (simp add: StartConversation_def Let_def UpdateConversation_def)
  with res rejected logged show ?thesis by simp
qed

theorem StartConversation_update_failure_nonfatal_witness:
  "fst (StartConversation readOnlyServer ''And tomorrow?'')
     = Inr \<lparr>resp_ConversationId = ''id0'', resp_Title = ''Weather in Barcelona'',
            resp_Reply = ''It is sunny!''\<rparr> \<and>
   LogError ''Failed to update conversation''
     \<in> set (snd (snd (StartConversation readOnlyServer ''And tomorrow?'')))"
proof -
  have trim: "TrimSpace ''And tomorrow?'' \<noteq> []" by code_simp
  have create: "create_error (repo readOnlyServer) = None"
    by (simp add: readOnlyServer_def exampleServer_def)
  have reply: "assistReply readOnlyServer (newConversation readOnlyServer ''And tomorrow?'')
                 = Inr ''It is sunny!''"
    by (simp add: readOnlyServer_def exampleServer_def)
  have update: "update_error (repo readOnlyServer) = Some ''write failed''"
    by (simp add: readOnlyServer_def)
  have norm: "normalizeTitle ''Weather in Barcelona'' = ''Weather in Barcelona''" by code_simp
  have trimmed: "TrimSpace ''Weather in Barcelona'' = ''Weather in Barcelona''" by code_simp
  have title: "fst (titleTask readOnlyServer (newConversation readOnlyServer ''And tomorrow?''))
                 = ''Weather in Barcelona''"
    by (simp add: titleTask_def generateTitle_def lruGet_def Let_def readOnlyServer_def
          exampleServer_def norm trimmed)
  have oid: "newObjectID readOnlyServer 0 = ''id0''"
  proof -
    have "Itoa 0 = ''0''" by code_simp
    then show ?thesis by (simp add: readOnlyServer_def exampleServer_def)
  qed
  from StartConversation_update_failure_nonfatal [OF trim create reply update] title oid
  show ?thesis by simp
qed

end
